theory Spec2Isabelle
  imports Main
begin

section \<open>Data model of the language client\<close>

text \<open>
  The client keeps its documents by object identity (a JavaScript \<open>Set\<close> of
  \<open>vscode.TextDocument\<close>); a document is modelled by its identity, a natural number.
\<close>

type_synonym document = nat

text \<open>
  A call of a method of the middleware object returned by \<open>createProtocolFilter\<close>, with
  its arguments (all but the last, which is the \<open>next\<close> callback); the arguments
  other than documents are opaque values.
\<close>

datatype mcall =
    didOpen document
  | didChange nat
  | willSave nat
  | willSaveWaitUntil nat
  | didSave nat
  | didClose document
  | provideCompletionItem nat nat nat
  | resolveCompletionItem nat nat
  | provideHover nat nat nat
  | provideSignatureHelp nat nat nat
  | provideDefinition nat nat nat
  | provideReferences nat nat nat nat
  | provideDocumentHighlights nat nat nat
  | provideDocumentSymbols nat nat
  | provideWorkspaceSymbols nat nat
  | provideCodeActions nat nat nat nat
  | provideCodeLenses nat nat
  | resolveCodeLens nat nat
  | provideDocumentFormattingEdits nat nat nat
  | provideDocumentRangeFormattingEdits nat nat nat nat
  | provideOnTypeFormattingEdits nat nat nat nat nat
  | provideRenameEdits nat nat nat nat
  | provideDocumentLinks nat nat
  | resolveDocumentLink nat nat

text \<open>
  What is handed to the transport (\<open>languageClient.sendRequest\<close>,
  \<open>languageClient.sendNotification\<close>, or the \<open>next\<close> callback of a middleware
  method). The constructors carry the names of the message constants declared in the
  language-client part of configurations.ts.
\<close>

datatype message =
    QueryDefaultPathsRequest
  | GoToDeclarationRequest
  | SwitchHeaderSourceRequest string string
  | NavigationListRequest document
  | DidOpenNotification document
  | FileCreatedNotification string
  | FileDeletedNotification string
  | ResetDatabaseNotification
  | PauseParsingNotification
  | ResumeParsingNotification
  | ActiveDocumentChangeNotification document
  | TextEditorSelectionChangeNotification nat nat
  | ChangeFolderSettingsNotification nat
  | ChangeCompileCommandsNotification string
  | ChangeSelectedSettingNotification nat
  | IntervalTimerNotification
  | Middleware mcall

datatype error = UnsupportedClient | TypeError | StopFailed

datatype ui_op = ShowConfigurations | ShowParsingCommands

datatype config_op = CheckCppProperties | ConfigurationEdit | AddToIncludePath string

datatype disposable = ConfigurationD | RootPathFileWatcherD | ChannelD nat

text \<open>
  Every effect of the client that a caller, the user or the server can observe, in the
  order in which the code performs it.
\<close>

datatype event =
    Send message
  | Stop
  | Raise error
  | TrackAdd document
  | TrackDelete document
  | AssertFailed
  | ShowErrorMessage string
  | DisposeOf disposable
  | Ui ui_op
  | Config config_op
  | SetActiveConfigName nat
  | RegistryReplace bool

text \<open>
  The closures that the client hands to \<open>requestWhenReady\<close> and \<open>notifyWhenReady\<close>:
  \<open>SendK m\<close> is \<open>() => this.languageClient.sendRequest(m)\<close> or
  \<open>() => this.languageClient.sendNotification(m)\<close>;
  \<open>ConfigurationsChangedK i\<close> and \<open>SelectedConfigurationChangedK i\<close> are the closures of
  \<open>onConfigurationsChanged\<close> and \<open>onSelectedConfigurationChanged\<close> (send, then set
  \<open>model.activeConfigName\<close>; the second reads \<open>this.configuration\<close> for the name);
  \<open>ConfigurationSelectK\<close> is the closure of \<open>handleConfigurationSelectCommand\<close> (it reads
  \<open>this.configuration.ConfigurationNames\<close>), \<open>ShowParsingK\<close> that of
  \<open>handleShowParsingCommands\<close>, \<open>ConfigK\<close> those of
  \<open>handleConfigurationEditCommand\<close> and \<open>handleAddToIncludePathCommand\<close>.
\<close>

datatype continuation =
    SendK message
  | ConfigurationsChangedK nat
  | SelectedConfigurationChangedK nat
  | ConfigurationSelectK
  | ShowParsingK
  | ConfigK config_op

text \<open>
  \<open>onReadyPromise\<close> is \<open>languageClient.onReady().then(onFulfilled, onRejected)\<close>: neither
  handler throws or returns a rejected promise, so it is either unsettled, holding the
  reactions registered with \<open>then\<close> in registration order, or fulfilled.
\<close>

datatype promise = Unsettled "continuation list" | Fulfilled

text \<open>
  Modelled from the spec: the class \<open>DataBinding\<close> (dataBinding.ts) is not among the
  sources. A field holds a value, an enabled flag and its subscriptions; \<open>activate\<close> and
  \<open>deactivate\<close> toggle the flag, \<open>dispose\<close> releases the subscriptions.
\<close>

record 'a DataBinding =
  Value :: 'a
  isActive :: bool
  listeners :: "nat list"

definition DataBinding_new :: "'a \<Rightarrow> 'a DataBinding" where
  "DataBinding_new v = \<lparr>Value = v, isActive = False, listeners = []\<rparr>"

definition DataBinding_activate :: "'a DataBinding \<Rightarrow> 'a DataBinding" where
  "DataBinding_activate b = b\<lparr>isActive := True\<rparr>"

definition DataBinding_deactivate :: "'a DataBinding \<Rightarrow> 'a DataBinding" where
  "DataBinding_deactivate b = b\<lparr>isActive := False\<rparr>"

definition DataBinding_dispose :: "'a DataBinding \<Rightarrow> 'a DataBinding" where
  "DataBinding_dispose b = b\<lparr>isActive := False, listeners := []\<rparr>"

record ClientModel =
  isTagParsing :: "bool DataBinding"
  isUpdatingIntelliSense :: "bool DataBinding"
  navigationLocation :: "string DataBinding"
  tagParserStatus :: "string DataBinding"
  activeConfigName :: "string DataBinding"

definition ClientModel_map ::
  "(bool DataBinding \<Rightarrow> bool DataBinding) \<Rightarrow> (string DataBinding \<Rightarrow> string DataBinding)
    \<Rightarrow> ClientModel \<Rightarrow> ClientModel" where
  "ClientModel_map f g m =
     \<lparr>isTagParsing = f (isTagParsing m),
      isUpdatingIntelliSense = f (isUpdatingIntelliSense m),
      navigationLocation = g (navigationLocation m),
      tagParserStatus = g (tagParserStatus m),
      activeConfigName = g (activeConfigName m)\<rparr>"

text \<open>
  The fields of the class \<open>DefaultClient\<close> (configurations.ts, second part). \<open>languageClient\<close> and \<open>configuration\<close> say whether the
  field is set (it is \<open>undefined\<close> until the ready handler assigns it);
  \<open>onReadyPromise\<close> is \<open>None\<close> when the constructor threw before assigning it.
  \<open>trackedDocuments\<close> is the \<open>Set\<close> in insertion order. \<open>trace\<close> is the log of effects.
\<close>

record client =
  ident :: nat
  workspaceRoot :: "string option"
  languageClient :: bool
  configuration :: bool
  isSupported :: bool
  onReadyPromise :: "promise option"
  trackedDocuments :: "document list"
  crashTimes :: "int list"
  disposables :: "disposable list"
  model :: ClientModel
  failureMessageShown :: bool
  trace :: "event list"

definition getName :: "string option \<Rightarrow> string" where
  "getName workspaceFolder = (case workspaceFolder of Some name \<Rightarrow> name | None \<Rightarrow> ''untitled'')"

definition emit :: "event list \<Rightarrow> client \<Rightarrow> client" where
  "emit es c = c\<lparr>trace := trace c @ es\<rparr>"

text \<open>
  The constructor. \<open>platformOk\<close> says whether \<open>getLanguageServerFileName\<close> knows the
  platform (it throws otherwise, before anything is assigned, and the \<open>catch\<close> block
  runs); \<open>shown\<close> is the persisted value of \<open>DefaultClient.failureMessageShown\<close>.
\<close>

definition unableToStart :: string where
  "unableToStart = ''Unable to start the C/C++ language server. IntelliSense features will be disabled.''"

definition ClientModel_new :: ClientModel where
  "ClientModel_new =
     \<lparr>isTagParsing = DataBinding_new False,
      isUpdatingIntelliSense = DataBinding_new False,
      navigationLocation = DataBinding_new [],
      tagParserStatus = DataBinding_new [],
      activeConfigName = DataBinding_new []\<rparr>"

definition markUnsupported :: "client \<Rightarrow> client" where
  "markUnsupported c =
     (let c1 = c\<lparr>isSupported := False\<rparr>
      in if \<not> failureMessageShown c1
         then emit [ShowErrorMessage unableToStart] (c1\<lparr>failureMessageShown := True\<rparr>)
         else c1)"

definition DefaultClient :: "nat \<Rightarrow> string option \<Rightarrow> bool \<Rightarrow> bool \<Rightarrow> client" where
  "DefaultClient i workspaceFolder platformOk shown =
     (let c = \<lparr>ident = i, workspaceRoot = None, languageClient = False, configuration = False,
                isSupported = True, onReadyPromise = None, trackedDocuments = [],
                crashTimes = [], disposables = [], model = ClientModel_new,
                failureMessageShown = shown, trace = []\<rparr>
      in if platformOk
         then c\<lparr>workspaceRoot := workspaceFolder, onReadyPromise := Some (Unsettled [])\<rparr>
         else markUnsupported c)"

section \<open>Crash policy: \<open>errorHandler.closed\<close>\<close>

datatype CloseAction = DoNotRestart | Restart

definition crashedMessage :: "string option \<Rightarrow> string" where
  "crashedMessage name =
     (case name of
        Some n \<Rightarrow> ''The language server for '' @ [CHR 0x27] @ n @ [CHR 0x27]
                   @ '' crashed 5 times in the last 3 minutes. It will not be restarted.''
      | None \<Rightarrow> ''The language server crashed 5 times in the last 3 minutes. It will not be restarted.'')"

text \<open>
  The outcome of one run of the handler: the crashed client afterwards, the client that
  \<open>allClients.replace\<close> returned when the handler kept it (and assigned its
  \<open>crashTimes\<close>), and the value returned to the transport.
\<close>

record closed_result =
  this :: client
  newClient :: "client option"
  action :: CloseAction

text \<open>
  \<open>replace\<close> is \<open>allClients.replace\<close> (clientCollection.ts, not among the sources); the
  handler's call of it is logged as \<open>RegistryReplace flag\<close>. \<open>workspaceFolders\<close> is
  \<open>vscode.workspace.workspaceFolders\<close> (\<open>None\<close> when undefined) and \<open>now\<close> is
  \<open>Date.now()\<close>, in milliseconds.
\<close>

definition multiFolder :: "string list option \<Rightarrow> bool" where
  "multiFolder workspaceFolders =
     (case workspaceFolders of None \<Rightarrow> False | Some fs \<Rightarrow> length fs > 1)"

definition closed ::
  "(client \<Rightarrow> bool \<Rightarrow> client) \<Rightarrow> string list option \<Rightarrow> int \<Rightarrow> client \<Rightarrow> closed_result" where
  "closed replace workspaceFolders now c0 =
     (let serverName = getName (workspaceRoot c0);
          c = c0\<lparr>crashTimes := crashTimes c0 @ [now]\<rparr>
      in if length (crashTimes c) < 5 then
           (let c1 = emit [RegistryReplace True] c;
                n = replace c1 True
            in \<lparr>this = c1, newClient = Some (n\<lparr>crashTimes := crashTimes c1\<rparr>),
                action = DoNotRestart\<rparr>)
         else
           (let elapsed = crashTimes c ! (length (crashTimes c) - 1) - crashTimes c ! 0
            in if elapsed \<le> 3 * 60 * 1000 then
                 (let c1 = emit [ShowErrorMessage
                                   (crashedMessage (if multiFolder workspaceFolders
                                                    then Some serverName else None))] c;
                      c2 = emit [RegistryReplace False] c1
                  in \<lparr>this = c2, newClient = None, action = DoNotRestart\<rparr>)
               else
                 (let c1 = c\<lparr>crashTimes := tl (crashTimes c)\<rparr>;
                      c2 = emit [RegistryReplace True] c1;
                      n = replace c2 True
                  in \<lparr>this = c2, newClient = Some (n\<lparr>crashTimes := crashTimes c2\<rparr>),
                      action = DoNotRestart\<rparr>)))"

text \<open>
  The crash records a live client can hold: a new client starts with the empty record,
  and a replacement client holds the record the handler assigned to it.
\<close>

inductive crash_record :: "int list \<Rightarrow> bool" where
  fresh: "crash_record []"
| migrated: "crash_record r \<Longrightarrow> crashTimes c = r
     \<Longrightarrow> newClient (closed replace folders now c) = Some n \<Longrightarrow> crash_record (crashTimes n)"

section \<open>Readiness gate: \<open>requestWhenReady\<close> and \<open>notifyWhenReady\<close>\<close>

text \<open>
  Calling a closure. A closure that reads a property of \<open>this.languageClient\<close> or of
  \<open>this.configuration\<close> while that field is \<open>undefined\<close> throws a \<open>TypeError\<close> at
  that point, before any effect that follows in its body.
\<close>

fun run :: "continuation \<Rightarrow> client \<Rightarrow> client" where
  "run (SendK m) c =
     (if languageClient c then emit [Send m] c else emit [Raise TypeError] c)"
| "run (ConfigurationsChangedK i) c =
     (if languageClient c
      then emit [Send (ChangeFolderSettingsNotification i), SetActiveConfigName i] c
      else emit [Raise TypeError] c)"
| "run (SelectedConfigurationChangedK i) c =
     (if languageClient c
      then (if configuration c
            then emit [Send (ChangeSelectedSettingNotification i), SetActiveConfigName i] c
            else emit [Send (ChangeSelectedSettingNotification i), Raise TypeError] c)
      else emit [Raise TypeError] c)"
| "run ConfigurationSelectK c =
     (if configuration c then emit [Ui ShowConfigurations] c else emit [Raise TypeError] c)"
| "run ShowParsingK c = emit [Ui ShowParsingCommands] c"
| "run (ConfigK op) c =
     (if configuration c then emit [Config op] c else emit [Raise TypeError] c)"

text \<open>
  \<open>this.onReadyPromise.then(() => k())\<close>: an unsettled promise appends the reaction to
  its list, a fulfilled one runs it.
\<close>

definition onReadyPromise_then :: "continuation \<Rightarrow> client \<Rightarrow> client" where
  "onReadyPromise_then k c =
     (case onReadyPromise c of
        Some (Unsettled q) \<Rightarrow> c\<lparr>onReadyPromise := Some (Unsettled (q @ [k]))\<rparr>
      | Some Fulfilled \<Rightarrow> run k c
      | None \<Rightarrow> c)"

text \<open>
  What \<open>requestWhenReady\<close> returns: the thenable the closure itself returned, the
  promise chained on \<open>onReadyPromise\<close>, or a promise rejected with the given reason.
\<close>

datatype thenable = Returned | Chained | Rejected error

definition requestWhenReady :: "continuation \<Rightarrow> client \<Rightarrow> client \<times> thenable" where
  "requestWhenReady request c =
     (if languageClient c then (run request c, Returned)
      else if isSupported c \<and> onReadyPromise c \<noteq> None
      then (onReadyPromise_then request c, Chained)
      else (c, Rejected UnsupportedClient))"

definition notifyWhenReady :: "continuation \<Rightarrow> client \<Rightarrow> client" where
  "notifyWhenReady notify c =
     (if languageClient c then run notify c
      else if isSupported c \<and> onReadyPromise c \<noteq> None
      then onReadyPromise_then notify c
      else c)"

text \<open>
  The state of the gate, read off the three branches of \<open>requestWhenReady\<close> and
  \<open>notifyWhenReady\<close>.
\<close>

datatype gate_state = Pending | Ready | Failed

definition gate :: "client \<Rightarrow> gate_state" where
  "gate c =
     (if languageClient c then Ready
      else if isSupported c \<and> onReadyPromise c \<noteq> None then Pending
      else Failed)"

text \<open>The reactions waiting on \<open>onReadyPromise\<close>, in registration order.\<close>

definition reactions :: "client \<Rightarrow> continuation list" where
  "reactions c = (case onReadyPromise c of Some (Unsettled q) \<Rightarrow> q | _ \<Rightarrow> [])"

text \<open>
  The two handlers of \<open>languageClient.onReady().then(...)\<close> in the constructor. When
  either returns, \<open>onReadyPromise\<close> is fulfilled and its reactions run in the order
  in which they were registered.
\<close>

definition settle :: "client \<Rightarrow> client" where
  "settle c =
     (case onReadyPromise c of
        Some (Unsettled q) \<Rightarrow> fold run q (c\<lparr>onReadyPromise := Some Fulfilled\<rparr>)
      | _ \<Rightarrow> c)"

definition registerFileWatcher :: "client \<Rightarrow> client" where
  "registerFileWatcher c =
     (if workspaceRoot c \<noteq> None
      then c\<lparr>disposables := disposables c @ [RootPathFileWatcherD]\<rparr>
      else c)"

definition onReady_fulfilled :: "client \<Rightarrow> client" where
  "onReady_fulfilled c =
     (let c1 = c\<lparr>configuration := True, disposables := disposables c @ [ConfigurationD]\<rparr>;
          c2 = emit [Send QueryDefaultPathsRequest] c1;
          c3 = c2\<lparr>languageClient := True, failureMessageShown := False\<rparr>;
          c4 = registerFileWatcher c3
      in settle c4)"

definition onReady_rejected :: "client \<Rightarrow> client" where
  "onReady_rejected c = settle (markUnsupported c)"

section \<open>Operations of the client\<close>

definition Set_add :: "document \<Rightarrow> document list \<Rightarrow> document list" where
  "Set_add d ds = (if d \<in> set ds then ds else ds @ [d])"

definition Set_delete :: "document \<Rightarrow> document list \<Rightarrow> document list" where
  "Set_delete d ds = removeAll d ds"

definition trackedDocuments_add :: "document \<Rightarrow> client \<Rightarrow> client" where
  "trackedDocuments_add d c =
     emit [TrackAdd d] (c\<lparr>trackedDocuments := Set_add d (trackedDocuments c)\<rparr>)"

definition trackedDocuments_delete :: "document \<Rightarrow> client \<Rightarrow> client" where
  "trackedDocuments_delete d c =
     emit [TrackDelete d] (c\<lparr>trackedDocuments := Set_delete d (trackedDocuments c)\<rparr>)"

definition takeOwnership :: "document \<Rightarrow> client \<Rightarrow> client" where
  "takeOwnership d c =
     trackedDocuments_add d (notifyWhenReady (SendK (DidOpenNotification d)) c)"

definition requestGoToDeclaration :: "client \<Rightarrow> client \<times> thenable" where
  "requestGoToDeclaration c = requestWhenReady (SendK GoToDeclarationRequest) c"

definition requestSwitchHeaderSource :: "string \<Rightarrow> string \<Rightarrow> client \<Rightarrow> client \<times> thenable" where
  "requestSwitchHeaderSource rootPath fileName c =
     requestWhenReady (SendK (SwitchHeaderSourceRequest rootPath fileName)) c"

definition requestNavigationList :: "document \<Rightarrow> client \<Rightarrow> client \<times> thenable" where
  "requestNavigationList d c = requestWhenReady (SendK (NavigationListRequest d)) c"

definition activeDocumentChanged :: "document \<Rightarrow> client \<Rightarrow> client" where
  "activeDocumentChanged d c = notifyWhenReady (SendK (ActiveDocumentChangeNotification d)) c"

definition selectionChanged :: "nat \<Rightarrow> nat \<Rightarrow> client \<Rightarrow> client" where
  "selectionChanged line character c =
     notifyWhenReady (SendK (TextEditorSelectionChangeNotification line character)) c"

definition resetDatabase :: "client \<Rightarrow> client" where
  "resetDatabase c = notifyWhenReady (SendK ResetDatabaseNotification) c"

definition pauseParsing :: "client \<Rightarrow> client" where
  "pauseParsing c = notifyWhenReady (SendK PauseParsingNotification) c"

definition resumeParsing :: "client \<Rightarrow> client" where
  "resumeParsing c = notifyWhenReady (SendK ResumeParsingNotification) c"

definition activate :: "client \<Rightarrow> client" where
  "activate c =
     resumeParsing
       (c\<lparr>model := ClientModel_map DataBinding_activate DataBinding_activate (model c)\<rparr>)"

definition deactivate :: "client \<Rightarrow> client" where
  "deactivate c =
     pauseParsing
       (c\<lparr>model := ClientModel_map DataBinding_deactivate DataBinding_deactivate (model c)\<rparr>)"

text \<open>
  \<open>onConfigurationsChanged\<close> builds its parameters from
  \<open>this.configuration.CurrentConfiguration\<close> (here \<open>i\<close>) before it calls
  \<open>notifyWhenReady\<close>, and so throws when the configuration is undefined.
\<close>

definition onConfigurationsChanged :: "nat \<Rightarrow> client \<Rightarrow> client" where
  "onConfigurationsChanged i c =
     (if configuration c then notifyWhenReady (ConfigurationsChangedK i) c
      else emit [Raise TypeError] c)"

definition onSelectedConfigurationChanged :: "nat \<Rightarrow> client \<Rightarrow> client" where
  "onSelectedConfigurationChanged i c = notifyWhenReady (SelectedConfigurationChangedK i) c"

definition onCompileCommandsChanged :: "string \<Rightarrow> client \<Rightarrow> client" where
  "onCompileCommandsChanged path c =
     notifyWhenReady (SendK (ChangeCompileCommandsNotification path)) c"

definition handleConfigurationSelectCommand :: "client \<Rightarrow> client" where
  "handleConfigurationSelectCommand c = notifyWhenReady ConfigurationSelectK c"

definition handleShowParsingCommands :: "client \<Rightarrow> client" where
  "handleShowParsingCommands c = notifyWhenReady ShowParsingK c"

definition handleConfigurationEditCommand :: "client \<Rightarrow> client" where
  "handleConfigurationEditCommand c = notifyWhenReady (ConfigK ConfigurationEdit) c"

definition handleAddToIncludePathCommand :: "string \<Rightarrow> client \<Rightarrow> client" where
  "handleAddToIncludePathCommand path c = notifyWhenReady (ConfigK (AddToIncludePath path)) c"

definition onInterval :: "client \<Rightarrow> client" where
  "onInterval c =
     (if languageClient c \<and> configuration c
      then emit [Send IntervalTimerNotification, Config CheckCppProperties] c
      else c)"

text \<open>
  \<open>dispose\<close>. The test is on the field \<open>this.languageClient\<close>, which only the ready
  handler assigns. \<open>stopped\<close> says whether the promise of \<open>languageClient.stop()\<close>
  is fulfilled; when it is rejected the \<open>then\<close> callback does not run and the promise
  that \<open>dispose\<close> returns is rejected.
\<close>

definition dispose_callback :: "client \<Rightarrow> client" where
  "dispose_callback c =
     (emit (map DisposeOf (disposables c)) c)
       \<lparr>disposables := [],
        model := ClientModel_map DataBinding_dispose DataBinding_dispose (model c)\<rparr>"

definition dispose :: "bool \<Rightarrow> client \<Rightarrow> error + client" where
  "dispose stopped c =
     (if languageClient c
      then (if stopped then Inr (dispose_callback (emit [Stop] c))
            else Inl StopFailed)
      else Inr (dispose_callback c))"

text \<open>
  The calls a caller can submit to a client, and \<open>submit\<close>, which performs one (the
  thenable of a request is dropped here).
\<close>

datatype call =
    RequestGoToDeclaration
  | RequestSwitchHeaderSource string string
  | RequestNavigationList document
  | ActiveDocumentChanged document
  | SelectionChanged nat nat
  | ResetDatabase
  | PauseParsing
  | ResumeParsing
  | TakeOwnership document
  | Activate
  | Deactivate
  | HandleConfigurationSelectCommand
  | HandleShowParsingCommands
  | HandleConfigurationEditCommand
  | HandleAddToIncludePathCommand string

fun submit :: "call \<Rightarrow> client \<Rightarrow> client" where
  "submit RequestGoToDeclaration c = fst (requestGoToDeclaration c)"
| "submit (RequestSwitchHeaderSource r f) c = fst (requestSwitchHeaderSource r f c)"
| "submit (RequestNavigationList d) c = fst (requestNavigationList d c)"
| "submit (ActiveDocumentChanged d) c = activeDocumentChanged d c"
| "submit (SelectionChanged l ch) c = selectionChanged l ch c"
| "submit ResetDatabase c = resetDatabase c"
| "submit PauseParsing c = pauseParsing c"
| "submit ResumeParsing c = resumeParsing c"
| "submit (TakeOwnership d) c = takeOwnership d c"
| "submit Activate c = activate c"
| "submit Deactivate c = deactivate c"
| "submit HandleConfigurationSelectCommand c = handleConfigurationSelectCommand c"
| "submit HandleShowParsingCommands c = handleShowParsingCommands c"
| "submit HandleConfigurationEditCommand c = handleConfigurationEditCommand c"
| "submit (HandleAddToIncludePathCommand p) c = handleAddToIncludePathCommand p c"

text \<open>The message that a call hands to the transport, if it hands one.\<close>

fun transmits :: "call \<Rightarrow> message list" where
  "transmits RequestGoToDeclaration = [GoToDeclarationRequest]"
| "transmits (RequestSwitchHeaderSource r f) = [SwitchHeaderSourceRequest r f]"
| "transmits (RequestNavigationList d) = [NavigationListRequest d]"
| "transmits (ActiveDocumentChanged d) = [ActiveDocumentChangeNotification d]"
| "transmits (SelectionChanged l ch) = [TextEditorSelectionChangeNotification l ch]"
| "transmits ResetDatabase = [ResetDatabaseNotification]"
| "transmits PauseParsing = [PauseParsingNotification]"
| "transmits ResumeParsing = [ResumeParsingNotification]"
| "transmits (TakeOwnership d) = [DidOpenNotification d]"
| "transmits Activate = [ResumeParsingNotification]"
| "transmits Deactivate = [PauseParsingNotification]"
| "transmits HandleConfigurationSelectCommand = []"
| "transmits HandleShowParsingCommands = []"
| "transmits HandleConfigurationEditCommand = []"
| "transmits (HandleAddToIncludePathCommand p) = []"

text \<open>The closure that a call hands to the gate.\<close>

fun closure :: "call \<Rightarrow> continuation" where
  "closure RequestGoToDeclaration = SendK GoToDeclarationRequest"
| "closure (RequestSwitchHeaderSource r f) = SendK (SwitchHeaderSourceRequest r f)"
| "closure (RequestNavigationList d) = SendK (NavigationListRequest d)"
| "closure (ActiveDocumentChanged d) = SendK (ActiveDocumentChangeNotification d)"
| "closure (SelectionChanged l ch) = SendK (TextEditorSelectionChangeNotification l ch)"
| "closure ResetDatabase = SendK ResetDatabaseNotification"
| "closure PauseParsing = SendK PauseParsingNotification"
| "closure ResumeParsing = SendK ResumeParsingNotification"
| "closure (TakeOwnership d) = SendK (DidOpenNotification d)"
| "closure Activate = SendK ResumeParsingNotification"
| "closure Deactivate = SendK PauseParsingNotification"
| "closure HandleConfigurationSelectCommand = ConfigurationSelectK"
| "closure HandleShowParsingCommands = ShowParsingK"
| "closure HandleConfigurationEditCommand = ConfigK ConfigurationEdit"
| "closure (HandleAddToIncludePathCommand p) = ConfigK (AddToIncludePath p)"

text \<open>What a closure does when both \<open>languageClient\<close> and \<open>configuration\<close> are set.\<close>

fun effects :: "continuation \<Rightarrow> event list" where
  "effects (SendK m) = [Send m]"
| "effects (ConfigurationsChangedK i) =
     [Send (ChangeFolderSettingsNotification i), SetActiveConfigName i]"
| "effects (SelectedConfigurationChangedK i) =
     [Send (ChangeSelectedSettingNotification i), SetActiveConfigName i]"
| "effects ConfigurationSelectK = [Ui ShowConfigurations]"
| "effects ShowParsingK = [Ui ShowParsingCommands]"
| "effects (ConfigK op) = [Config op]"

text \<open>The messages handed to the transport, read off a trace.\<close>

fun sends :: "event list \<Rightarrow> message list" where
  "sends [] = []"
| "sends (Send m # es) = m # sends es"
| "sends (e # es) = sends es"

section \<open>Protocol router: \<open>createProtocolFilter\<close>\<close>

text \<open>
  Modelled from the spec: the class \<open>ClientCollection\<close> (clientCollection.ts) is not among
  the sources. The router reads its \<open>ActiveClient\<close> and calls its \<open>checkOwnership\<close>,
  which is true iff \<open>ownerOf(document) === session\<close>; \<open>ownerOf\<close> is a parameter.
  Clients are compared by identity.
\<close>

record ClientCollection =
  ActiveClient :: nat
  ownerOf :: "document \<Rightarrow> nat"

definition checkOwnership :: "ClientCollection \<Rightarrow> client \<Rightarrow> document \<Rightarrow> bool" where
  "checkOwnership clients me d = (ownerOf clients d = ident me)"

text \<open>
  What a middleware method returns: \<open>undefined\<close>, \<open>null\<close>, what the \<open>next\<close> callback
  returned, or \<open>Promise.resolve([])\<close>.
\<close>

datatype reply = Undefined | Null | FromNext | ResolvedEmptyArray

text \<open>
  The \<open>next\<close> callback that the language client library passes as the last argument:
  it hands the call to the transport of this client.
\<close>

definition sendMessage :: "mcall \<Rightarrow> client \<Rightarrow> client \<times> reply" where
  "sendMessage mc c = (emit [Send (Middleware mc)] c, FromNext)"

definition defaultHandler ::
  "ClientCollection \<Rightarrow> client \<Rightarrow> nat \<Rightarrow> (nat \<Rightarrow> client \<Rightarrow> client \<times> reply) \<Rightarrow> client \<times> reply" where
  "defaultHandler clients me data callback =
     (if ActiveClient clients = ident me then (fst (callback data me), Undefined)
      else (me, Undefined))"

definition invoke1 ::
  "ClientCollection \<Rightarrow> client \<Rightarrow> nat \<Rightarrow> (nat \<Rightarrow> client \<Rightarrow> client \<times> reply) \<Rightarrow> client \<times> reply" where
  "invoke1 clients me a callback =
     (if ActiveClient clients = ident me then callback a me else (me, Null))"

definition invoke2 ::
  "ClientCollection \<Rightarrow> client \<Rightarrow> nat \<Rightarrow> nat \<Rightarrow> (nat \<Rightarrow> nat \<Rightarrow> client \<Rightarrow> client \<times> reply)
    \<Rightarrow> client \<times> reply" where
  "invoke2 clients me a b callback =
     (if ActiveClient clients = ident me then callback a b me else (me, Null))"

definition invoke3 ::
  "ClientCollection \<Rightarrow> client \<Rightarrow> nat \<Rightarrow> nat \<Rightarrow> nat
    \<Rightarrow> (nat \<Rightarrow> nat \<Rightarrow> nat \<Rightarrow> client \<Rightarrow> client \<times> reply) \<Rightarrow> client \<times> reply" where
  "invoke3 clients me a b c callback =
     (if ActiveClient clients = ident me then callback a b c me else (me, Null))"

definition invoke4 ::
  "ClientCollection \<Rightarrow> client \<Rightarrow> nat \<Rightarrow> nat \<Rightarrow> nat \<Rightarrow> nat
    \<Rightarrow> (nat \<Rightarrow> nat \<Rightarrow> nat \<Rightarrow> nat \<Rightarrow> client \<Rightarrow> client \<times> reply) \<Rightarrow> client \<times> reply" where
  "invoke4 clients me a b c d callback =
     (if ActiveClient clients = ident me then callback a b c d me else (me, Null))"

definition invoke5 ::
  "ClientCollection \<Rightarrow> client \<Rightarrow> nat \<Rightarrow> nat \<Rightarrow> nat \<Rightarrow> nat \<Rightarrow> nat
    \<Rightarrow> (nat \<Rightarrow> nat \<Rightarrow> nat \<Rightarrow> nat \<Rightarrow> nat \<Rightarrow> client \<Rightarrow> client \<times> reply) \<Rightarrow> client \<times> reply" where
  "invoke5 clients me a b c d e callback =
     (if ActiveClient clients = ident me then callback a b c d e me else (me, Null))"

text \<open>
  The middleware object, as a function of the call; each equation is one property of
  the object literal, applied to the \<open>next\<close> callback of that method.
\<close>

fun createProtocolFilter :: "ClientCollection \<Rightarrow> client \<Rightarrow> mcall \<Rightarrow> client \<times> reply" where
  "createProtocolFilter clients me (didOpen document) =
     (if checkOwnership clients me document
      then (fst (sendMessage (didOpen document) (trackedDocuments_add document me)), Undefined)
      else (me, Undefined))"
| "createProtocolFilter clients me (didChange e) =
     defaultHandler clients me e (\<lambda>e. sendMessage (didChange e))"
| "createProtocolFilter clients me (willSave e) =
     defaultHandler clients me e (\<lambda>e. sendMessage (willSave e))"
| "createProtocolFilter clients me (willSaveWaitUntil e) =
     (if ActiveClient clients = ident me then sendMessage (willSaveWaitUntil e) me
      else (me, ResolvedEmptyArray))"
| "createProtocolFilter clients me (didSave e) =
     defaultHandler clients me e (\<lambda>e. sendMessage (didSave e))"
| "createProtocolFilter clients me (didClose document) =
     (if ActiveClient clients = ident me
      then (let me1 = (if document \<in> set (trackedDocuments me) then me
                       else emit [AssertFailed] me);
                me2 = trackedDocuments_delete document me1
            in (fst (sendMessage (didClose document) me2), Undefined))
      else (me, Undefined))"
| "createProtocolFilter clients me (provideCompletionItem a b c) =
     invoke3 clients me a b c (\<lambda>a b c. sendMessage (provideCompletionItem a b c))"
| "createProtocolFilter clients me (resolveCompletionItem a b) =
     invoke2 clients me a b (\<lambda>a b. sendMessage (resolveCompletionItem a b))"
| "createProtocolFilter clients me (provideHover a b c) =
     invoke3 clients me a b c (\<lambda>a b c. sendMessage (provideHover a b c))"
| "createProtocolFilter clients me (provideSignatureHelp a b c) =
     invoke3 clients me a b c (\<lambda>a b c. sendMessage (provideSignatureHelp a b c))"
| "createProtocolFilter clients me (provideDefinition a b c) =
     invoke3 clients me a b c (\<lambda>a b c. sendMessage (provideDefinition a b c))"
| "createProtocolFilter clients me (provideReferences a b c d) =
     invoke4 clients me a b c d (\<lambda>a b c d. sendMessage (provideReferences a b c d))"
| "createProtocolFilter clients me (provideDocumentHighlights a b c) =
     invoke3 clients me a b c (\<lambda>a b c. sendMessage (provideDocumentHighlights a b c))"
| "createProtocolFilter clients me (provideDocumentSymbols a b) =
     invoke2 clients me a b (\<lambda>a b. sendMessage (provideDocumentSymbols a b))"
| "createProtocolFilter clients me (provideWorkspaceSymbols a b) =
     invoke2 clients me a b (\<lambda>a b. sendMessage (provideWorkspaceSymbols a b))"
| "createProtocolFilter clients me (provideCodeActions a b c d) =
     invoke4 clients me a b c d (\<lambda>a b c d. sendMessage (provideCodeActions a b c d))"
| "createProtocolFilter clients me (provideCodeLenses a b) =
     invoke2 clients me a b (\<lambda>a b. sendMessage (provideCodeLenses a b))"
| "createProtocolFilter clients me (resolveCodeLens a b) =
     invoke2 clients me a b (\<lambda>a b. sendMessage (resolveCodeLens a b))"
| "createProtocolFilter clients me (provideDocumentFormattingEdits a b c) =
     invoke3 clients me a b c (\<lambda>a b c. sendMessage (provideDocumentFormattingEdits a b c))"
| "createProtocolFilter clients me (provideDocumentRangeFormattingEdits a b c d) =
     invoke4 clients me a b c d (\<lambda>a b c d. sendMessage (provideDocumentRangeFormattingEdits a b c d))"
| "createProtocolFilter clients me (provideOnTypeFormattingEdits a b c d e) =
     invoke5 clients me a b c d e (\<lambda>a b c d e. sendMessage (provideOnTypeFormattingEdits a b c d e))"
| "createProtocolFilter clients me (provideRenameEdits a b c d) =
     invoke4 clients me a b c d (\<lambda>a b c d. sendMessage (provideRenameEdits a b c d))"
| "createProtocolFilter clients me (provideDocumentLinks a b) =
     invoke2 clients me a b (\<lambda>a b. sendMessage (provideDocumentLinks a b))"
| "createProtocolFilter clients me (resolveDocumentLink a b) =
     invoke2 clients me a b (\<lambda>a b. sendMessage (resolveDocumentLink a b))"

fun lifecycle :: "mcall \<Rightarrow> bool" where
  "lifecycle (didOpen d) = True"
| "lifecycle (didClose d) = True"
| "lifecycle mc = False"

section \<open>States a client can be in\<close>

text \<open>
  The handlers that the ready handler registers on the transport and on the file
  watcher: a file created or deleted under the workspace folder is reported to the
  server, and the first debug or log output of the server opens an output channel,
  which joins the disposables.
\<close>

definition onDidCreate :: "string \<Rightarrow> client \<Rightarrow> client" where
  "onDidCreate uri c = emit [Send (FileCreatedNotification uri)] c"

definition onDidDelete :: "string \<Rightarrow> client \<Rightarrow> client" where
  "onDidDelete uri c = emit [Send (FileDeletedNotification uri)] c"

definition channelCreated :: "nat \<Rightarrow> client \<Rightarrow> client" where
  "channelCreated n c = c\<lparr>disposables := disposables c @ [ChannelD n]\<rparr>"

text \<open>
  A client is built by the constructor; afterwards \<open>onReady\<close> settles once, callers
  submit calls, the configuration object (once it exists) raises its events, the timer
  ticks, the router intercepts middleware calls, the transport closes, and the client
  is disposed. Once the transport is assigned the file watcher and the server's output
  raise their events. Some fields are written from outside the methods above: the crash
  handler of the client that this one replaces assigns \<open>crashTimes\<close>
  (\<open>newClient.crashTimes = this.crashTimes\<close>); the registry holds the tracked set through
  the getter \<open>TrackedDocuments\<close>; the server's status reports and the subscribers of the
  model's events change the model; and the persisted flag
  \<open>DefaultClient.failureMessageShown\<close> is shared by all clients.
\<close>

inductive reachable :: "client \<Rightarrow> bool" where
  constructed: "reachable (DefaultClient i folder platformOk shown)"
| made_ready: "reachable c \<Longrightarrow> onReadyPromise c = Some (Unsettled q)
     \<Longrightarrow> reachable (onReady_fulfilled c)"
| made_unsupported: "reachable c \<Longrightarrow> onReadyPromise c = Some (Unsettled q)
     \<Longrightarrow> reachable (onReady_rejected c)"
| called: "reachable c \<Longrightarrow> reachable (submit a c)"
| configurations_changed: "reachable c \<Longrightarrow> configuration c
     \<Longrightarrow> reachable (onConfigurationsChanged i c)"
| selection_changed: "reachable c \<Longrightarrow> configuration c
     \<Longrightarrow> reachable (onSelectedConfigurationChanged i c)"
| compile_commands_changed: "reachable c \<Longrightarrow> configuration c
     \<Longrightarrow> reachable (onCompileCommandsChanged path c)"
| ticked: "reachable c \<Longrightarrow> reachable (onInterval c)"
| routed: "reachable c \<Longrightarrow> reachable (fst (createProtocolFilter clients c mc))"
| crashed: "reachable c \<Longrightarrow> reachable (this (closed replace folders now c))"
| disposed: "reachable c \<Longrightarrow> dispose stopped c = Inr c' \<Longrightarrow> reachable c'"
| file_created: "reachable c \<Longrightarrow> languageClient c \<Longrightarrow> reachable (onDidCreate uri c)"
| file_deleted: "reachable c \<Longrightarrow> languageClient c \<Longrightarrow> reachable (onDidDelete uri c)"
| channel_created: "reachable c \<Longrightarrow> languageClient c \<Longrightarrow> reachable (channelCreated n c)"
| inherited: "reachable c \<Longrightarrow> reachable (c\<lparr>crashTimes := r\<rparr>)"
| tracked_by_registry: "reachable c \<Longrightarrow> reachable (c\<lparr>trackedDocuments := ds\<rparr>)"
| model_changed: "reachable c \<Longrightarrow> reachable (c\<lparr>model := m\<rparr>)"
| notice_flag_changed: "reachable c \<Longrightarrow> reachable (c\<lparr>failureMessageShown := b\<rparr>)"

section \<open>Properties of the crash policy\<close>

lemma crash_record_length: "crash_record r \<Longrightarrow> length r \<le> 4"
proof (induction rule: crash_record.induct)
  case fresh
  show ?case by simp
next
  case (migrated r c replace folders now n)
  from migrated.hyps(3) migrated.hyps(2) migrated.IH show ?case
    by (auto simp: closed_def Let_def emit_def split: if_splits)
qed

lemma oldest_newest:
  "xs \<noteq> [] \<Longrightarrow> xs ! (length xs - 1) - xs ! 0 = last xs - hd (xs :: int list)"
  by (simp add: last_conv_nth hd_conv_nth)

lemma crashedMessage_single:
  "crashedMessage None
     = ''The language server crashed 5 times in the last 3 minutes. It will not be restarted.''"
  by (simp add: crashedMessage_def)

lemma crashedMessage_multi:
  "crashedMessage (Some n)
     = ''The language server for '' @ [CHR 0x27] @ n @ [CHR 0x27]
       @ '' crashed 5 times in the last 3 minutes. It will not be restarted.''"
  by (simp add: crashedMessage_def)

text \<open>
  C1. When the record, after the new timestamp is appended, has at least 5 entries and
  its newest entry is at most 3 minutes (180000 ms) after its oldest, the handler shows
  one error message and goes on (the message's promise is not awaited), calls
  \<open>allClients.replace(this, false)\<close>, keeps no replacement client and hands no crash
  record on, and answers \<open>DoNotRestart\<close>. With more than one workspace folder the
  message names the folder of the client (\<open>untitled\<close> when it has none); with one
  folder, none, or no folder list at all it is the message without a name; and the two
  messages differ, whatever the name.
\<close>

theorem closed_stops_permanently:
  assumes "5 \<le> length (crashTimes c @ [now])"
    and "last (crashTimes c @ [now]) - hd (crashTimes c @ [now]) \<le> 3 * 60 * 1000"
  shows "this (closed replace folders now c) =
           c\<lparr>crashTimes := crashTimes c @ [now],
             trace := trace c @
               [ShowErrorMessage
                  (case folders of
                     None \<Rightarrow>
                       ''The language server crashed 5 times in the last 3 minutes. It will not be restarted.''
                   | Some fs \<Rightarrow>
                       if 1 < length fs
                       then ''The language server for '' @ [CHR 0x27]
                            @ (case workspaceRoot c of Some n \<Rightarrow> n | None \<Rightarrow> ''untitled'')
                            @ [CHR 0x27]
                            @ '' crashed 5 times in the last 3 minutes. It will not be restarted.''
                       else ''The language server crashed 5 times in the last 3 minutes. It will not be restarted.''),
                RegistryReplace False]\<rparr>
         \<and> newClient (closed replace folders now c) = None
         \<and> action (closed replace folders now c) = DoNotRestart
         \<and> (\<forall>n. ''The language server for '' @ [CHR 0x27] @ n @ [CHR 0x27]
                   @ '' crashed 5 times in the last 3 minutes. It will not be restarted.''
                 \<noteq> ''The language server crashed 5 times in the last 3 minutes. It will not be restarted.'')"
proof -
  let ?xs = "crashTimes c @ [now]"
  have e: "?xs ! (length ?xs - 1) - ?xs ! 0 \<le> 3 * 60 * 1000"
    using assms(2) oldest_newest [of ?xs] by simp
  have l: "\<not> length ?xs < 5" using assms(1) by simp
  have r: "closed replace folders now c =
             \<lparr>this = c\<lparr>crashTimes := ?xs,
                       trace := trace c @
                         [ShowErrorMessage
                            (crashedMessage (if multiFolder folders
                                             then Some (getName (workspaceRoot c)) else None)),
                          RegistryReplace False]\<rparr>,
              newClient = None, action = DoNotRestart\<rparr>"
    using e l by (simp add: closed_def Let_def emit_def)
  have m: "crashedMessage (if multiFolder folders then Some (getName (workspaceRoot c)) else None)
           = (case folders of
                None \<Rightarrow>
                  ''The language server crashed 5 times in the last 3 minutes. It will not be restarted.''
              | Some fs \<Rightarrow>
                  if 1 < length fs
                  then ''The language server for '' @ [CHR 0x27]
                       @ (case workspaceRoot c of Some n \<Rightarrow> n | None \<Rightarrow> ''untitled'')
                       @ [CHR 0x27]
                       @ '' crashed 5 times in the last 3 minutes. It will not be restarted.''
                  else ''The language server crashed 5 times in the last 3 minutes. It will not be restarted.'')"
    by (simp add: multiFolder_def getName_def crashedMessage_single crashedMessage_multi
          split: option.splits)
  have d: "\<forall>n. ''The language server for '' @ [CHR 0x27] @ n @ [CHR 0x27]
                   @ '' crashed 5 times in the last 3 minutes. It will not be restarted.''
                 \<noteq> ''The language server crashed 5 times in the last 3 minutes. It will not be restarted.''"
    by simp
  show ?thesis
    unfolding r m using d by simp
qed

theorem closed_stops_permanently_witness:
  "(let c = (DefaultClient 0 (Some ''proj'') True False)\<lparr>crashTimes := [0, 30000, 40000, 50000]\<rparr>;
        replace = (\<lambda>old flag. DefaultClient (Suc (ident old)) (workspaceRoot old) True False);
        two = closed replace (Some [''proj'', ''lib'']) 60000 c;
        one = closed replace (Some [''proj'']) 60000 c;
        none = closed replace None 60000 c
    in 5 \<le> length (crashTimes c @ [60000])
       \<and> last (crashTimes c @ [60000]) - hd (crashTimes c @ [60000]) \<le> 3 * 60 * 1000
       \<and> trace (this two) =
           [ShowErrorMessage (''The language server for '' @ [CHR 0x27] @ ''proj'' @ [CHR 0x27]
              @ '' crashed 5 times in the last 3 minutes. It will not be restarted.''),
            RegistryReplace False]
       \<and> trace (this one) =
           [ShowErrorMessage
              ''The language server crashed 5 times in the last 3 minutes. It will not be restarted.'',
            RegistryReplace False]
       \<and> trace (this none) = trace (this one)
       \<and> crashTimes (this two) = [0, 30000, 40000, 50000, 60000]
       \<and> newClient two = None \<and> action two = DoNotRestart
       \<and> newClient one = None \<and> action one = DoNotRestart)"
proof -
  let ?c = "(DefaultClient 0 (Some ''proj'') True False)\<lparr>crashTimes := [0, 30000, 40000, 50000]\<rparr>"
  let ?replace = "\<lambda>old flag. DefaultClient (Suc (ident old)) (workspaceRoot old) True False"
  have h: "5 \<le> length (crashTimes ?c @ [60000])"
    "last (crashTimes ?c @ [60000]) - hd (crashTimes ?c @ [60000]) \<le> 3 * 60 * 1000"
    by simp_all
  have f: "workspaceRoot ?c = Some ''proj''" "trace ?c = []"
    by (simp_all add: DefaultClient_def)
  note two = closed_stops_permanently [OF h, of ?replace "Some [''proj'', ''lib'']"]
  note one = closed_stops_permanently [OF h, of ?replace "Some [''proj'']"]
  note none = closed_stops_permanently [OF h, of ?replace None]
  have t2: "trace (this (closed ?replace (Some [''proj'', ''lib'']) 60000 ?c)) =
           [ShowErrorMessage (''The language server for '' @ [CHR 0x27] @ ''proj'' @ [CHR 0x27]
              @ '' crashed 5 times in the last 3 minutes. It will not be restarted.''),
            RegistryReplace False]"
    and c2: "crashTimes (this (closed ?replace (Some [''proj'', ''lib'']) 60000 ?c))
               = [0, 30000, 40000, 50000, 60000]"
    using two f by simp_all
  have t1: "trace (this (closed ?replace (Some [''proj'']) 60000 ?c)) =
           [ShowErrorMessage
              ''The language server crashed 5 times in the last 3 minutes. It will not be restarted.'',
            RegistryReplace False]"
    using one f by simp
  have t0: "trace (this (closed ?replace None 60000 ?c)) =
           [ShowErrorMessage
              ''The language server crashed 5 times in the last 3 minutes. It will not be restarted.'',
            RegistryReplace False]"
    using none f by simp
  from two have r2: "newClient (closed ?replace (Some [''proj'', ''lib'']) 60000 ?c) = None"
    "action (closed ?replace (Some [''proj'', ''lib'']) 60000 ?c) = DoNotRestart"
    by blast+
  from one have r1: "newClient (closed ?replace (Some [''proj'']) 60000 ?c) = None"
    "action (closed ?replace (Some [''proj'']) 60000 ?c) = DoNotRestart"
    by blast+
  show ?thesis
    unfolding Let_def t2 t1 t0 c2 r2 r1 using h by simp
qed

text \<open>
  C2. When the record, after the new timestamp is appended, has fewer than 5 entries,
  the handler shows nothing, calls \<open>allClients.replace(this, true)\<close>, assigns the
  record with the new entry to the client that call returned, and answers
  \<open>DoNotRestart\<close>.
\<close>

theorem closed_replaces_below_threshold:
  assumes "length (crashTimes c @ [now]) < 5"
  shows "this (closed replace folders now c) =
           c\<lparr>crashTimes := crashTimes c @ [now], trace := trace c @ [RegistryReplace True]\<rparr>
         \<and> newClient (closed replace folders now c) =
             Some ((replace (this (closed replace folders now c)) True)
                     \<lparr>crashTimes := crashTimes c @ [now]\<rparr>)
         \<and> action (closed replace folders now c) = DoNotRestart"
  using assms by (simp add: closed_def Let_def emit_def)

theorem closed_replaces_below_threshold_witness:
  "(let c = (DefaultClient 0 (Some ''proj'') True False)\<lparr>crashTimes := [0, 1000]\<rparr>;
        r = closed (\<lambda>old flag. DefaultClient (Suc (ident old)) (workspaceRoot old) True False)
              None 2000 c
    in length (crashTimes c @ [2000]) < 5
       \<and> trace (this r) = [RegistryReplace True]
       \<and> map_option crashTimes (newClient r) = Some [0, 1000, 2000]
       \<and> map_option ident (newClient r) = Some 1
       \<and> action r = DoNotRestart)"
  using closed_replaces_below_threshold
    [of "(DefaultClient 0 (Some ''proj'') True False)\<lparr>crashTimes := [0, 1000]\<rparr>"
        2000 "\<lambda>old flag. DefaultClient (Suc (ident old)) (workspaceRoot old) True False" None]
  by (simp add: Let_def DefaultClient_def emit_def)

lemma crash_record_append:
  assumes "crash_record r" and "length r < 4"
  shows "crash_record (r @ [now])"
proof -
  let ?c = "(DefaultClient 0 None True False)\<lparr>crashTimes := r\<rparr>"
  have "newClient (closed (\<lambda>c f. c) None now ?c)
          = Some ((emit [RegistryReplace True] (?c\<lparr>crashTimes := r @ [now]\<rparr>))
                    \<lparr>crashTimes := r @ [now]\<rparr>)"
    using assms(2) by (simp add: closed_def Let_def emit_def)
  from migrated [OF assms(1) _ this] show ?thesis by simp
qed

text \<open>
  C3. When the record, after the new timestamp is appended, has at least 5 entries and
  its newest entry is more than 3 minutes after its oldest, the handler removes exactly
  the first (oldest) entry, shows nothing, calls \<open>allClients.replace(this, true)\<close>,
  assigns the trimmed record to the client that call returned and answers
  \<open>DoNotRestart\<close>. The record of a client on which the handler runs is either empty or
  one that an earlier run handed on, and then the trimmed record is the 4 most recent
  entries, the last one being the new timestamp.
\<close>

theorem closed_slides_window:
  assumes "5 \<le> length (crashTimes c @ [now])"
    and "last (crashTimes c @ [now]) - hd (crashTimes c @ [now]) > 3 * 60 * 1000"
  shows "this (closed replace folders now c) =
           c\<lparr>crashTimes := tl (crashTimes c @ [now]), trace := trace c @ [RegistryReplace True]\<rparr>
         \<and> newClient (closed replace folders now c) =
             Some ((replace (this (closed replace folders now c)) True)
                     \<lparr>crashTimes := tl (crashTimes c @ [now])\<rparr>)
         \<and> action (closed replace folders now c) = DoNotRestart
         \<and> (crash_record (crashTimes c) \<longrightarrow>
              length (tl (crashTimes c @ [now])) = 4
              \<and> tl (crashTimes c @ [now])
                  = drop (length (crashTimes c @ [now]) - 4) (crashTimes c @ [now])
              \<and> last (tl (crashTimes c @ [now])) = now)"
proof -
  let ?xs = "crashTimes c @ [now]"
  have e: "\<not> ?xs ! (length ?xs - 1) - ?xs ! 0 \<le> 3 * 60 * 1000"
    using assms(2) oldest_newest [of ?xs] by simp
  have l: "\<not> length ?xs < 5" using assms(1) by simp
  have main: "this (closed replace folders now c) =
           c\<lparr>crashTimes := tl ?xs, trace := trace c @ [RegistryReplace True]\<rparr>
         \<and> newClient (closed replace folders now c) =
             Some ((replace (this (closed replace folders now c)) True)\<lparr>crashTimes := tl ?xs\<rparr>)
         \<and> action (closed replace folders now c) = DoNotRestart"
    using e l by (simp add: closed_def Let_def emit_def)
  have window: "length (tl ?xs) = 4 \<and> tl ?xs = drop (length ?xs - 4) ?xs \<and> last (tl ?xs) = now"
    if r: "crash_record (crashTimes c)"
  proof -
    from crash_record_length [OF r] assms(1) have n: "length (crashTimes c) = 4" by simp
    then obtain a b d e where "crashTimes c = [a, b, d, e]"
      by (auto simp: length_Suc_conv numeral_eq_Suc)
    then show ?thesis by simp
  qed
  from main window show ?thesis by blast
qed

theorem closed_slides_window_witness:
  "(let c = (DefaultClient 0 (Some ''proj'') True False)
              \<lparr>crashTimes := [0, 60000, 130000, 200000]\<rparr>;
        r = closed (\<lambda>old flag. DefaultClient (Suc (ident old)) (workspaceRoot old) True False)
              (Some [''proj'', ''lib'']) 250000 c
    in 5 \<le> length (crashTimes c @ [250000])
       \<and> last (crashTimes c @ [250000]) - hd (crashTimes c @ [250000]) > 3 * 60 * 1000
       \<and> crash_record (crashTimes c)
       \<and> crashTimes (this r) = [60000, 130000, 200000, 250000]
       \<and> trace (this r) = [RegistryReplace True]
       \<and> map_option crashTimes (newClient r) = Some [60000, 130000, 200000, 250000]
       \<and> action r = DoNotRestart
       \<and> length (tl (crashTimes c @ [250000])) = 4)"
proof -
  have "crash_record ([] @ [0])"
    by (rule crash_record_append [OF fresh]) simp
  then have "crash_record ([0] @ [60000])"
    by (intro crash_record_append) simp_all
  then have "crash_record ([0, 60000] @ [130000])"
    by (intro crash_record_append) simp_all
  then have "crash_record ([0, 60000, 130000] @ [200000])"
    by (intro crash_record_append) simp_all
  then have r: "crash_record [0, 60000, 130000, 200000]" by simp
  show ?thesis
    using r closed_slides_window
      [of "(DefaultClient 0 (Some ''proj'') True False)\<lparr>crashTimes := [0, 60000, 130000, 200000]\<rparr>"
          250000 "\<lambda>old flag. DefaultClient (Suc (ident old)) (workspaceRoot old) True False"
          "Some [''proj'', ''lib'']"]
    by (simp add: Let_def DefaultClient_def)
qed

section \<open>Properties of the readiness gate\<close>

lemma sends_append: "sends (xs @ ys) = sends xs @ sends ys"
  by (induction xs rule: sends.induct) simp_all

lemma languageClient_emit [simp]: "languageClient (emit es c) = languageClient c"
  and configuration_emit [simp]: "configuration (emit es c) = configuration c"
  and isSupported_emit [simp]: "isSupported (emit es c) = isSupported c"
  and onReadyPromise_emit [simp]: "onReadyPromise (emit es c) = onReadyPromise c"
  and trackedDocuments_emit [simp]: "trackedDocuments (emit es c) = trackedDocuments c"
  and trace_emit [simp]: "trace (emit es c) = trace c @ es"
  by (simp_all add: emit_def)

lemma emit_emit: "emit es (emit ds c) = emit (ds @ es) c"
  by (simp add: emit_def)

lemma run_ready:
  "languageClient c \<Longrightarrow> configuration c \<Longrightarrow> run k c = emit (effects k) c"
  by (cases k) simp_all

lemma fold_run_ready:
  "languageClient c \<Longrightarrow> configuration c \<Longrightarrow> fold run q c = emit (concat (map effects q)) c"
proof (induction q arbitrary: c)
  case Nil
  show ?case by (simp add: emit_def)
next
  case (Cons k q)
  then show ?case by (simp add: run_ready emit_emit)
qed

lemma notifyWhenReady_pending:
  assumes "\<not> languageClient c" and "isSupported c" and "onReadyPromise c = Some (Unsettled q)"
  shows "notifyWhenReady k c = c\<lparr>onReadyPromise := Some (Unsettled (q @ [k]))\<rparr>"
  using assms by (simp add: notifyWhenReady_def onReadyPromise_then_def)

lemma requestWhenReady_pending:
  assumes "\<not> languageClient c" and "isSupported c" and "onReadyPromise c = Some (Unsettled q)"
  shows "requestWhenReady k c = (c\<lparr>onReadyPromise := Some (Unsettled (q @ [k]))\<rparr>, Chained)"
  using assms by (simp add: requestWhenReady_def onReadyPromise_then_def)

lemma submit_pending:
  assumes "\<not> languageClient c" and "isSupported c" and "onReadyPromise c = Some (Unsettled q)"
  shows "\<not> languageClient (submit a c) \<and> isSupported (submit a c)
         \<and> onReadyPromise (submit a c) = Some (Unsettled (q @ [closure a]))
         \<and> sends (trace (submit a c)) = sends (trace c)"
  using assms
  by (cases a)
     (simp_all add: requestGoToDeclaration_def requestSwitchHeaderSource_def
        requestNavigationList_def activeDocumentChanged_def selectionChanged_def
        resetDatabase_def pauseParsing_def resumeParsing_def takeOwnership_def
        activate_def deactivate_def handleConfigurationSelectCommand_def
        handleShowParsingCommands_def handleConfigurationEditCommand_def
        handleAddToIncludePathCommand_def trackedDocuments_add_def
        notifyWhenReady_pending requestWhenReady_pending sends_append)

lemma fold_submit_pending:
  assumes "\<not> languageClient c" and "isSupported c" and "onReadyPromise c = Some (Unsettled q)"
  shows "\<not> languageClient (fold submit calls c) \<and> isSupported (fold submit calls c)
         \<and> onReadyPromise (fold submit calls c) = Some (Unsettled (q @ map closure calls))
         \<and> sends (trace (fold submit calls c)) = sends (trace c)"
  using assms
proof (induction calls arbitrary: c q)
  case Nil
  then show ?case by simp
next
  case (Cons a calls)
  from submit_pending [OF Cons.prems, of a]
  have s: "\<not> languageClient (submit a c)" "isSupported (submit a c)"
    "onReadyPromise (submit a c) = Some (Unsettled (q @ [closure a]))"
    "sends (trace (submit a c)) = sends (trace c)"
    by simp_all
  from Cons.IH [OF s(1) s(2) s(3)] s(4) show ?case by simp
qed

lemma sends_effects_closure: "sends (effects (closure a)) = transmits a"
  by (cases a) simp_all

lemma sends_concat_effects:
  "sends (concat (map (effects \<circ> closure) calls)) = concat (map transmits calls)"
  by (induction calls) (simp_all add: sends_append sends_effects_closure)

lemma onReady_fulfilled_trace:
  assumes "onReadyPromise c = Some (Unsettled q)"
  shows "trace (onReady_fulfilled c)
           = trace c @ [Send QueryDefaultPathsRequest] @ concat (map effects q)"
  using assms
  by (simp add: onReady_fulfilled_def Let_def settle_def registerFileWatcher_def
        fold_run_ready emit_def)

lemma markUnsupported_flags [simp]:
  "languageClient (markUnsupported c) = languageClient c"
  "configuration (markUnsupported c) = configuration c"
  "isSupported (markUnsupported c) = False"
  "onReadyPromise (markUnsupported c) = onReadyPromise c"
  "sends (trace (markUnsupported c)) = sends (trace c)"
  by (simp_all add: markUnsupported_def Let_def sends_append)

lemma run_flags [simp]:
  "languageClient (run k c) = languageClient c"
  "configuration (run k c) = configuration c"
  "isSupported (run k c) = isSupported c"
  "onReadyPromise (run k c) = onReadyPromise c"
  by (cases k; simp)+

lemma fold_run_flags [simp]:
  "languageClient (fold run q c) = languageClient c"
  "configuration (fold run q c) = configuration c"
  "isSupported (fold run q c) = isSupported c"
  "onReadyPromise (fold run q c) = onReadyPromise c"
  by (induction q arbitrary: c; simp)+

lemma run_trackedDocuments [simp]: "trackedDocuments (run k c) = trackedDocuments c"
  by (cases k) simp_all

lemma notifyWhenReady_trackedDocuments [simp]:
  "trackedDocuments (notifyWhenReady k c) = trackedDocuments c"
  by (simp add: notifyWhenReady_def onReadyPromise_then_def split: option.splits promise.splits)

lemma settle_flags [simp]:
  "languageClient (settle c) = languageClient c"
  "configuration (settle c) = configuration c"
  "isSupported (settle c) = isSupported c"
  by (simp_all add: settle_def split: option.splits promise.splits)

lemma notifyWhenReady_flags [simp]:
  "languageClient (notifyWhenReady k c) = languageClient c"
  "configuration (notifyWhenReady k c) = configuration c"
  "isSupported (notifyWhenReady k c) = isSupported c"
  "(onReadyPromise (notifyWhenReady k c) = Some Fulfilled) = (onReadyPromise c = Some Fulfilled)"
  by (auto simp: notifyWhenReady_def onReadyPromise_then_def
        split: option.splits promise.splits)

lemma requestWhenReady_flags [simp]:
  "languageClient (fst (requestWhenReady k c)) = languageClient c"
  "configuration (fst (requestWhenReady k c)) = configuration c"
  "isSupported (fst (requestWhenReady k c)) = isSupported c"
  "(onReadyPromise (fst (requestWhenReady k c)) = Some Fulfilled)
     = (onReadyPromise c = Some Fulfilled)"
  by (auto simp: requestWhenReady_def onReadyPromise_then_def
        split: option.splits promise.splits)

lemmas call_defs =
  requestGoToDeclaration_def requestSwitchHeaderSource_def requestNavigationList_def
  activeDocumentChanged_def selectionChanged_def resetDatabase_def pauseParsing_def
  resumeParsing_def takeOwnership_def activate_def deactivate_def
  handleConfigurationSelectCommand_def handleShowParsingCommands_def
  handleConfigurationEditCommand_def handleAddToIncludePathCommand_def
  trackedDocuments_add_def

lemma submit_flags [simp]:
  "languageClient (submit a c) = languageClient c"
  "configuration (submit a c) = configuration c"
  "isSupported (submit a c) = isSupported c"
  "(onReadyPromise (submit a c) = Some Fulfilled) = (onReadyPromise c = Some Fulfilled)"
  by (cases a; simp add: call_defs)+

lemmas router_defs =
  defaultHandler_def invoke1_def invoke2_def invoke3_def invoke4_def invoke5_def
  sendMessage_def trackedDocuments_add_def trackedDocuments_delete_def

lemma createProtocolFilter_flags [simp]:
  "languageClient (fst (createProtocolFilter clients c mc)) = languageClient c"
  "configuration (fst (createProtocolFilter clients c mc)) = configuration c"
  "isSupported (fst (createProtocolFilter clients c mc)) = isSupported c"
  "onReadyPromise (fst (createProtocolFilter clients c mc)) = onReadyPromise c"
  by (cases mc; simp add: router_defs Let_def)+

lemma closed_flags [simp]:
  "languageClient (this (closed replace folders now c)) = languageClient c"
  "configuration (this (closed replace folders now c)) = configuration c"
  "isSupported (this (closed replace folders now c)) = isSupported c"
  "onReadyPromise (this (closed replace folders now c)) = onReadyPromise c"
  by (simp_all add: closed_def Let_def)

lemma dispose_flags:
  "dispose stopped c = Inr c' \<Longrightarrow>
     languageClient c' = languageClient c \<and> configuration c' = configuration c
     \<and> isSupported c' = isSupported c \<and> onReadyPromise c' = onReadyPromise c"
  by (auto simp: dispose_def dispose_callback_def split: if_splits)

text \<open>
  Two invariants. The transport is assigned only after the configuration; and
  \<open>onReadyPromise\<close> is fulfilled only by one of the two handlers, of which one assigns
  the transport and the other clears \<open>isSupported\<close>, so that a pending gate has an
  unsettled promise.
\<close>

lemma ready_has_configuration: "reachable c \<Longrightarrow> languageClient c \<Longrightarrow> configuration c"
proof (induction rule: reachable.induct)
  case (constructed i folder platformOk shown)
  then show ?case by (simp add: DefaultClient_def Let_def split: if_splits)
next
  case (made_ready c q)
  show ?case by (simp add: onReady_fulfilled_def Let_def registerFileWatcher_def)
next
  case (made_unsupported c q)
  then show ?case by (simp add: onReady_rejected_def)
next
  case (called c a)
  then show ?case by simp
next
  case (configurations_changed c i)
  then show ?case by (simp add: onConfigurationsChanged_def split: if_splits)
next
  case (selection_changed c i)
  then show ?case by (simp add: onSelectedConfigurationChanged_def)
next
  case (compile_commands_changed c path)
  then show ?case by (simp add: onCompileCommandsChanged_def)
next
  case (ticked c)
  then show ?case by (simp add: onInterval_def split: if_splits)
next
  case (routed c clients mc)
  then show ?case by simp
next
  case (crashed c replace folders now)
  then show ?case by simp
next
  case (disposed c stopped c')
  then show ?case using dispose_flags by blast
next
  case (file_created c uri)
  then show ?case by (simp add: onDidCreate_def)
next
  case (file_deleted c uri)
  then show ?case by (simp add: onDidDelete_def)
next
  case (channel_created c n)
  then show ?case by (simp add: channelCreated_def)
next
  case (inherited c r)
  then show ?case by simp
next
  case (tracked_by_registry c ds)
  then show ?case by simp
next
  case (model_changed c m)
  then show ?case by simp
next
  case (notice_flag_changed c b)
  then show ?case by simp
qed

lemma fulfilled_is_settled:
  "reachable c \<Longrightarrow> onReadyPromise c = Some Fulfilled \<Longrightarrow> languageClient c \<or> \<not> isSupported c"
proof (induction rule: reachable.induct)
  case (constructed i folder platformOk shown)
  then show ?case by (simp add: DefaultClient_def Let_def split: if_splits)
next
  case (made_ready c q)
  show ?case by (simp add: onReady_fulfilled_def Let_def registerFileWatcher_def)
next
  case (made_unsupported c q)
  show ?case by (simp add: onReady_rejected_def)
next
  case (called c a)
  then show ?case by simp
next
  case (configurations_changed c i)
  then show ?case by (simp add: onConfigurationsChanged_def split: if_splits)
next
  case (selection_changed c i)
  then show ?case by (simp add: onSelectedConfigurationChanged_def)
next
  case (compile_commands_changed c path)
  then show ?case by (simp add: onCompileCommandsChanged_def)
next
  case (ticked c)
  then show ?case by (simp add: onInterval_def split: if_splits)
next
  case (routed c clients mc)
  then show ?case by simp
next
  case (crashed c replace folders now)
  then show ?case by simp
next
  case (disposed c stopped c')
  then show ?case using dispose_flags [OF disposed.hyps(2)] by simp
next
  case (file_created c uri)
  then show ?case by (simp add: onDidCreate_def)
next
  case (file_deleted c uri)
  then show ?case by (simp add: onDidDelete_def)
next
  case (channel_created c n)
  then show ?case by (simp add: channelCreated_def)
next
  case (inherited c r)
  then show ?case by simp
next
  case (tracked_by_registry c ds)
  then show ?case by simp
next
  case (model_changed c m)
  then show ?case by simp
next
  case (notice_flag_changed c b)
  then show ?case by simp
qed

lemma pending_is_unsettled:
  assumes "reachable c" and "gate c = Pending"
  shows "\<not> languageClient c \<and> isSupported c \<and> onReadyPromise c = Some (Unsettled (reactions c))"
proof -
  from assms(2) have p: "\<not> languageClient c" "isSupported c" "onReadyPromise c \<noteq> None"
    by (simp_all add: gate_def split: if_splits)
  with fulfilled_is_settled [OF assms(1)] have "onReadyPromise c \<noteq> Some Fulfilled" by blast
  with p(3) obtain q where "onReadyPromise c = Some (Unsettled q)"
    by (cases "onReadyPromise c"; cases "the (onReadyPromise c)") auto
  with p show ?thesis by (simp add: reactions_def)
qed

lemma unsettled_reactions:
  assumes "gate c = Pending" and "onReadyPromise c \<noteq> Some Fulfilled"
  shows "\<not> languageClient c \<and> isSupported c \<and> onReadyPromise c = Some (Unsettled (reactions c))"
proof -
  from assms(1) have p: "\<not> languageClient c" "isSupported c" "onReadyPromise c \<noteq> None"
    by (simp_all add: gate_def split: if_splits)
  with assms(2) obtain q where "onReadyPromise c = Some (Unsettled q)"
    by (cases "onReadyPromise c"; cases "the (onReadyPromise c)") auto
  with p show ?thesis by (simp add: reactions_def)
qed

text \<open>
  C4. A client whose gate is pending and whose \<open>onReadyPromise\<close> has not been settled
  (as it is in every state that a pending client can reach, by \<open>pending_is_unsettled\<close>):
  the calls submitted to it send nothing and leave the gate pending; when \<open>onReady\<close> is
  then fulfilled, the ready handler sends its own request for the default paths, after
  it the closures that were already waiting run, and after those the closure of every
  submitted call, each handing its message to the transport, in the order in which the
  calls were submitted.
\<close>

theorem deferred_calls_fire_in_order:
  assumes "gate c = Pending" and "onReadyPromise c \<noteq> Some Fulfilled"
  shows "sends (trace (fold submit calls c)) = sends (trace c)
         \<and> gate (fold submit calls c) = Pending
         \<and> gate (onReady_fulfilled (fold submit calls c)) = Ready
         \<and> trace (onReady_fulfilled (fold submit calls c))
             = trace (fold submit calls c) @ [Send QueryDefaultPathsRequest]
               @ concat (map effects (reactions c)) @ concat (map (effects \<circ> closure) calls)
         \<and> sends (trace (onReady_fulfilled (fold submit calls c)))
             = sends (trace c) @ [QueryDefaultPathsRequest]
               @ sends (concat (map effects (reactions c))) @ concat (map transmits calls)"
proof -
  from unsettled_reactions [OF assms]
  have p: "\<not> languageClient c" "isSupported c"
    and q: "onReadyPromise c = Some (Unsettled (reactions c))"
    by simp_all
  note f = fold_submit_pending [OF p q, of calls]
  from f have q': "onReadyPromise (fold submit calls c)
                     = Some (Unsettled (reactions c @ map closure calls))"
    by simp
  from f have g: "gate (fold submit calls c) = Pending"
    by (simp add: gate_def)
  have r: "gate (onReady_fulfilled (fold submit calls c)) = Ready"
    by (simp add: gate_def onReady_fulfilled_def Let_def registerFileWatcher_def)
  have t: "trace (onReady_fulfilled (fold submit calls c))
             = trace (fold submit calls c) @ [Send QueryDefaultPathsRequest]
               @ concat (map effects (reactions c)) @ concat (map (effects \<circ> closure) calls)"
    by (simp add: onReady_fulfilled_trace [OF q'])
  have "sends (trace (onReady_fulfilled (fold submit calls c)))
             = sends (trace c) @ [QueryDefaultPathsRequest]
               @ sends (concat (map effects (reactions c))) @ concat (map transmits calls)"
    using f by (simp add: t sends_append sends_concat_effects)
  with f g r t show ?thesis by simp
qed

theorem deferred_calls_fire_in_order_witness:
  "(let old = (DefaultClient 0 (Some ''proj'') True False)\<lparr>crashTimes := [0, 1000]\<rparr>;
        replace = (\<lambda>old flag. DefaultClient (Suc (ident old)) (workspaceRoot old) True False);
        c = the (newClient (closed replace None 2000 old));
        calls = [TakeOwnership 7, ActiveDocumentChanged 7, RequestNavigationList 7,
                 SelectionChanged 3 1, HandleShowParsingCommands, PauseParsing]
    in crashTimes c = [0, 1000, 2000]
       \<and> gate c = Pending \<and> onReadyPromise c \<noteq> Some Fulfilled
       \<and> sends (trace (fold submit calls c)) = []
       \<and> sends (trace (onReady_fulfilled (fold submit calls c)))
           = [QueryDefaultPathsRequest, DidOpenNotification 7,
              ActiveDocumentChangeNotification 7, NavigationListRequest 7,
              TextEditorSelectionChangeNotification 3 1, PauseParsingNotification])"
proof -
  let ?old = "(DefaultClient 0 (Some ''proj'') True False)\<lparr>crashTimes := [0, 1000]\<rparr>"
  let ?replace = "\<lambda>old flag. DefaultClient (Suc (ident old)) (workspaceRoot old) True False"
  let ?p = "(DefaultClient 1 (Some ''proj'') True False)\<lparr>crashTimes := [0, 1000, 2000]\<rparr>"
  let ?calls = "[TakeOwnership 7, ActiveDocumentChanged 7, RequestNavigationList 7,
                 SelectionChanged 3 1, HandleShowParsingCommands, PauseParsing]"
  have n: "the (newClient (closed ?replace None 2000 ?old)) = ?p"
    by (simp add: closed_def Let_def DefaultClient_def emit_def)
  have g: "gate ?p = Pending" and u: "onReadyPromise ?p \<noteq> Some Fulfilled"
    and q: "reactions ?p = []" and t: "trace ?p = []"
    and k: "crashTimes ?p = [0, 1000, 2000]"
    by (simp_all add: DefaultClient_def gate_def reactions_def)
  note order = deferred_calls_fire_in_order [OF g u, of ?calls]
  from order have before: "sends (trace (fold submit ?calls ?p)) = sends (trace ?p)"
    by blast
  from order have after: "sends (trace (onReady_fulfilled (fold submit ?calls ?p)))
             = sends (trace ?p) @ [QueryDefaultPathsRequest]
               @ sends (concat (map effects (reactions ?p))) @ concat (map transmits ?calls)"
    by blast
  show ?thesis
    unfolding Let_def n before after t q using g u k by simp
qed

lemma run_not_ready_sends:
  "\<not> languageClient c \<Longrightarrow> sends (trace (run k c)) = sends (trace c)"
  by (cases k) (simp_all add: sends_append)

lemma fold_run_not_ready_sends:
  "\<not> languageClient c \<Longrightarrow> sends (trace (fold run q c)) = sends (trace c)"
  by (induction q arbitrary: c) (simp_all add: run_not_ready_sends)

text \<open>
  When \<open>onReady\<close> is rejected while the transport was never assigned, nothing is handed
  to the transport, whatever was waiting; and once the gate has failed a request is
  rejected with the reason \<open>Unsupported client\<close> and a notification is dropped, both
  leaving the client as it was.
\<close>

lemma onReady_rejected_sends_nothing:
  "\<not> languageClient c \<Longrightarrow> sends (trace (onReady_rejected c)) = sends (trace c)"
  by (simp add: onReady_rejected_def settle_def fold_run_not_ready_sends
        split: option.splits promise.splits)

lemma onReady_rejected_gate:
  "\<not> languageClient c \<Longrightarrow> gate (onReady_rejected c) = Failed"
  by (simp add: onReady_rejected_def settle_def gate_def split: option.splits promise.splits)

lemma calls_after_failure:
  "gate c = Failed \<Longrightarrow>
     requestWhenReady k c = (c, Rejected UnsupportedClient) \<and> notifyWhenReady k c = c"
  by (auto simp: gate_def requestWhenReady_def notifyWhenReady_def split: if_splits)

text \<open>
  C5. A request and a command submitted while the gate is pending, followed by the
  rejection of \<open>onReady\<close>: the rejection handler marks the client unsupported and shows
  the notice, then \<open>onReadyPromise\<close> is fulfilled and the waiting closures run. The
  request's closure reads \<open>this.languageClient\<close>, which is undefined, so its promise is
  rejected with a \<open>TypeError\<close>, and the command's closure opens its picker. A request
  made afterwards is rejected with \<open>Unsupported client\<close>.
\<close>

theorem queued_calls_run_after_rejection:
  "(let c0 = DefaultClient 0 (Some ''proj'') True False;
        c1 = fst (requestGoToDeclaration c0);
        c2 = handleShowParsingCommands c1;
        c3 = onReady_rejected c2
    in gate c0 = Pending
       \<and> snd (requestGoToDeclaration c0) = Chained
       \<and> gate c2 = Pending
       \<and> gate c3 = Failed
       \<and> trace c3 = [ShowErrorMessage unableToStart, Raise TypeError, Ui ShowParsingCommands]
       \<and> requestGoToDeclaration c3 = (c3, Rejected UnsupportedClient)
       \<and> pauseParsing c3 = c3)"
  by (simp add: Let_def DefaultClient_def requestGoToDeclaration_def requestWhenReady_def
        handleShowParsingCommands_def notifyWhenReady_def onReadyPromise_then_def
        onReady_rejected_def markUnsupported_def settle_def gate_def emit_def
        pauseParsing_def)

section \<open>Properties of the protocol router\<close>

text \<open>
  C6. For every middleware call other than \<open>didOpen\<close> and \<open>didClose\<close>, the router
  hands the call to this client's transport exactly when this client is the active
  client; when it is not, the client is left as it was and the method returns
  \<open>undefined\<close>, \<open>null\<close> or a promise resolved with the empty array.
\<close>

theorem router_forwards_iff_active:
  assumes "\<not> lifecycle mc"
  shows "(trace (fst (createProtocolFilter clients me mc)) = trace me @ [Send (Middleware mc)]
            \<longleftrightarrow> ActiveClient clients = ident me)
         \<and> (ActiveClient clients = ident me \<longrightarrow>
              fst (createProtocolFilter clients me mc) = emit [Send (Middleware mc)] me)
         \<and> (ActiveClient clients \<noteq> ident me \<longrightarrow>
              fst (createProtocolFilter clients me mc) = me
              \<and> snd (createProtocolFilter clients me mc) \<in> {Undefined, Null, ResolvedEmptyArray})"
  using assms
  by (cases mc)
     (simp_all add: defaultHandler_def invoke1_def invoke2_def invoke3_def invoke4_def
        invoke5_def sendMessage_def)

theorem router_forwards_iff_active_witness:
  "(let a = onReady_fulfilled (DefaultClient 0 (Some ''a'') True False);
        b = onReady_fulfilled (DefaultClient 1 (Some ''b'') True False);
        clients = \<lparr>ActiveClient = 0, ownerOf = (\<lambda>d. 1)\<rparr>
    in \<not> lifecycle (provideHover 7 2 0)
       \<and> sends (trace (fst (createProtocolFilter clients a (provideHover 7 2 0))))
           = [QueryDefaultPathsRequest, Middleware (provideHover 7 2 0)]
       \<and> createProtocolFilter clients b (provideHover 7 2 0) = (b, Null))"
  using router_forwards_iff_active
    [of "provideHover 7 2 0" "\<lparr>ActiveClient = 0, ownerOf = (\<lambda>d. 1)\<rparr>"
        "onReady_fulfilled (DefaultClient 0 (Some ''a'') True False)"]
    router_forwards_iff_active
    [of "provideHover 7 2 0" "\<lparr>ActiveClient = 0, ownerOf = (\<lambda>d. 1)\<rparr>"
        "onReady_fulfilled (DefaultClient 1 (Some ''b'') True False)"]
  by (simp add: Let_def DefaultClient_def onReady_fulfilled_def settle_def
        registerFileWatcher_def invoke3_def emit_def)

text \<open>
  C7. A document owned and tracked by client 1 is closed while client 0 is the active
  client. The router of client 0, for which \<open>checkOwnership\<close> is false, accepts the
  event: its assertion that it tracks the document fails and it sends \<open>didClose\<close> to
  its server. The router of client 1, the owner, drops the event and keeps the
  document in its tracked set.
\<close>

theorem didClose_accepted_without_ownership:
  "(let a = onReady_fulfilled (DefaultClient 0 (Some ''a'') True False);
        b0 = onReady_fulfilled (DefaultClient 1 (Some ''b'') True False);
        clients = \<lparr>ActiveClient = 0, ownerOf = (\<lambda>d. 1)\<rparr>;
        b = fst (createProtocolFilter clients b0 (didOpen 7))
    in \<not> checkOwnership clients a 7
       \<and> createProtocolFilter clients a (didClose 7)
           = (emit [AssertFailed, TrackDelete 7, Send (Middleware (didClose 7))] a, Undefined)
       \<and> checkOwnership clients b 7
       \<and> trackedDocuments b = [7]
       \<and> createProtocolFilter clients b (didClose 7) = (b, Undefined))"
  by (simp add: Let_def DefaultClient_def onReady_fulfilled_def settle_def
        registerFileWatcher_def checkOwnership_def sendMessage_def trackedDocuments_add_def
        trackedDocuments_delete_def Set_add_def Set_delete_def emit_def)

section \<open>Properties of the client's operations\<close>

text \<open>
  C8. While the gate is not ready, \<open>onInterval\<close> leaves the client exactly as it was:
  nothing is sent, nothing is added to the reactions of \<open>onReadyPromise\<close>, nothing is
  raised. On a client that has become ready (the transport is assigned, and with it the
  configuration, in every state a client can reach, a replacement after a crash
  included) it sends the interval notification and then has the configuration re-check
  its file.
\<close>

theorem onInterval_dropped_until_ready:
  "(gate c \<noteq> Ready \<longrightarrow> onInterval c = c)
   \<and> (gate c = Ready \<and> configuration c \<longrightarrow>
        onInterval c
          = c\<lparr>trace := trace c @ [Send IntervalTimerNotification, Config CheckCppProperties]\<rparr>)
   \<and> (reachable c \<and> gate c = Ready \<longrightarrow>
        configuration c
        \<and> onInterval c
            = c\<lparr>trace := trace c @ [Send IntervalTimerNotification, Config CheckCppProperties]\<rparr>)"
proof -
  have a: "onInterval c = c" if "gate c \<noteq> Ready"
    using that by (simp add: gate_def onInterval_def split: if_splits)
  have b: "onInterval c
          = c\<lparr>trace := trace c @ [Send IntervalTimerNotification, Config CheckCppProperties]\<rparr>"
    if "gate c = Ready" and "configuration c"
  proof -
    from that(1) have "languageClient c" by (simp add: gate_def split: if_splits)
    with that(2) show ?thesis by (simp add: onInterval_def emit_def)
  qed
  have d: "configuration c" if "reachable c" and "gate c = Ready"
  proof -
    from that(2) have "languageClient c" by (simp add: gate_def split: if_splits)
    from ready_has_configuration [OF that(1) this] show ?thesis .
  qed
  from a b d show ?thesis by blast
qed

theorem onInterval_dropped_until_ready_witness:
  "(let old = (DefaultClient 0 (Some ''proj'') True False)\<lparr>crashTimes := [0, 1000]\<rparr>;
        replace = (\<lambda>old flag. DefaultClient (Suc (ident old)) (workspaceRoot old) True False);
        c = takeOwnership 7 (the (newClient (closed replace None 2000 old)))
    in crashTimes c = [0, 1000, 2000]
       \<and> gate c \<noteq> Ready \<and> onInterval c = c
       \<and> reachable (onReady_fulfilled c) \<and> gate (onReady_fulfilled c) = Ready
       \<and> configuration (onReady_fulfilled c)
       \<and> crashTimes (onReady_fulfilled c) = [0, 1000, 2000]
       \<and> trace (onInterval (onReady_fulfilled c))
           = [TrackAdd 7, Send QueryDefaultPathsRequest, Send (DidOpenNotification 7),
              Send IntervalTimerNotification, Config CheckCppProperties])"
proof -
  let ?old = "(DefaultClient 0 (Some ''proj'') True False)\<lparr>crashTimes := [0, 1000]\<rparr>"
  let ?replace = "\<lambda>old flag. DefaultClient (Suc (ident old)) (workspaceRoot old) True False"
  let ?p = "(DefaultClient 1 (Some ''proj'') True False)\<lparr>crashTimes := [0, 1000, 2000]\<rparr>"
  let ?t = "takeOwnership 7 ?p"
  have n: "the (newClient (closed ?replace None 2000 ?old)) = ?p"
    by (simp add: closed_def Let_def DefaultClient_def emit_def)
  have q: "onReadyPromise ?t = Some (Unsettled [SendK (DidOpenNotification 7)])"
    and k: "crashTimes ?t = [0, 1000, 2000]"
    by (simp_all add: DefaultClient_def takeOwnership_def trackedDocuments_add_def
          notifyWhenReady_def onReadyPromise_then_def emit_def)
  have "reachable ?p" by (rule inherited [OF constructed])
  then have "reachable (submit (TakeOwnership 7) ?p)" by (rule called)
  then have "reachable ?t" by simp
  from made_ready [OF this q] have r: "reachable (onReady_fulfilled ?t)" .
  have g: "gate ?t \<noteq> Ready"
    by (simp add: gate_def takeOwnership_def trackedDocuments_add_def DefaultClient_def)
  have g': "gate (onReady_fulfilled ?t) = Ready"
    by (simp add: gate_def onReady_fulfilled_def Let_def registerFileWatcher_def)
  have k': "crashTimes (onReady_fulfilled ?t) = [0, 1000, 2000]"
    using q k
    by (simp add: onReady_fulfilled_def Let_def registerFileWatcher_def settle_def emit_def
          DefaultClient_def)
  have t: "trace (onReady_fulfilled ?t)
             = [TrackAdd 7, Send QueryDefaultPathsRequest, Send (DidOpenNotification 7)]"
  proof -
    have "trace ?t = [TrackAdd 7]"
      by (simp add: DefaultClient_def takeOwnership_def trackedDocuments_add_def
            notifyWhenReady_def onReadyPromise_then_def)
    with onReady_fulfilled_trace [OF q] show ?thesis by simp
  qed
  note pending = onInterval_dropped_until_ready [of ?t]
  note ready = onInterval_dropped_until_ready [of "onReady_fulfilled ?t"]
  from pending g have 1: "onInterval ?t = ?t" by blast
  from ready r g' have 2: "configuration (onReady_fulfilled ?t)"
    "trace (onInterval (onReady_fulfilled ?t))
       = trace (onReady_fulfilled ?t) @ [Send IntervalTimerNotification, Config CheckCppProperties]"
    by simp_all
  show ?thesis
    unfolding Let_def n using k g 1 r g' 2 k' t by simp
qed




text \<open>
  C10. \<open>takeOwnership\<close> puts the document into the tracked set in every state of the
  gate. While the gate is pending the \<open>didOpen\<close> notification only joins the reactions
  of \<open>onReadyPromise\<close>, and the document is tracked before anything is sent; when the
  transport is already assigned the notification is sent first and the document is
  added after it, whereas the router's \<open>didOpen\<close> adds the document first and sends
  after.
\<close>

theorem takeOwnership_tracks_at_once:
  "trackedDocuments (takeOwnership d c) = Set_add d (trackedDocuments c)
   \<and> d \<in> set (trackedDocuments (takeOwnership d c))
   \<and> (reachable c \<and> gate c = Pending \<longrightarrow>
        trace (takeOwnership d c) = trace c @ [TrackAdd d]
        \<and> reactions (takeOwnership d c) = reactions c @ [SendK (DidOpenNotification d)])
   \<and> (gate c = Failed \<longrightarrow> trace (takeOwnership d c) = trace c @ [TrackAdd d])
   \<and> (gate c = Ready \<longrightarrow>
        trace (takeOwnership d c) = trace c @ [Send (DidOpenNotification d), TrackAdd d])
   \<and> (checkOwnership clients c d \<longrightarrow>
        trace (fst (createProtocolFilter clients c (didOpen d)))
          = trace c @ [TrackAdd d, Send (Middleware (didOpen d))])"
proof -
  have tracked: "trackedDocuments (takeOwnership d c) = Set_add d (trackedDocuments c)"
    by (simp add: takeOwnership_def trackedDocuments_add_def)
  have member: "d \<in> set (Set_add d (trackedDocuments c))"
    by (simp add: Set_add_def)
  have pending: "trace (takeOwnership d c) = trace c @ [TrackAdd d]
        \<and> reactions (takeOwnership d c) = reactions c @ [SendK (DidOpenNotification d)]"
    if "reachable c" and "gate c = Pending"
  proof -
    from pending_is_unsettled [OF that]
    have "\<not> languageClient c" "isSupported c"
      "onReadyPromise c = Some (Unsettled (reactions c))"
      by simp_all
    from notifyWhenReady_pending [OF this] show ?thesis
      by (simp add: takeOwnership_def trackedDocuments_add_def reactions_def)
  qed
  have failed: "trace (takeOwnership d c) = trace c @ [TrackAdd d]" if "gate c = Failed"
    using calls_after_failure [OF that]
    by (simp add: takeOwnership_def trackedDocuments_add_def)
  have ready: "trace (takeOwnership d c) = trace c @ [Send (DidOpenNotification d), TrackAdd d]"
    if "gate c = Ready"
  proof -
    from that have "languageClient c" by (simp add: gate_def split: if_splits)
    then show ?thesis
      by (simp add: takeOwnership_def trackedDocuments_add_def notifyWhenReady_def)
  qed
  have router: "trace (fst (createProtocolFilter clients c (didOpen d)))
          = trace c @ [TrackAdd d, Send (Middleware (didOpen d))]"
    if "checkOwnership clients c d"
    using that by (simp add: sendMessage_def trackedDocuments_add_def)
  from tracked member pending failed ready router show ?thesis by simp
qed

theorem takeOwnership_tracks_at_once_witness:
  "(let p = DefaultClient 0 (Some ''proj'') True False;
        r = onReady_fulfilled p;
        clients = \<lparr>ActiveClient = 0, ownerOf = (\<lambda>d. 0)\<rparr>
    in reachable p \<and> gate p = Pending
       \<and> trackedDocuments (takeOwnership 7 p) = [7]
       \<and> trace (takeOwnership 7 p) = [TrackAdd 7]
       \<and> reactions (takeOwnership 7 p) = [SendK (DidOpenNotification 7)]
       \<and> gate r = Ready
       \<and> trace (takeOwnership 7 r)
           = [Send QueryDefaultPathsRequest, Send (DidOpenNotification 7), TrackAdd 7]
       \<and> checkOwnership clients r 7
       \<and> trace (fst (createProtocolFilter clients r (didOpen 7)))
           = [Send QueryDefaultPathsRequest, TrackAdd 7, Send (Middleware (didOpen 7))])"
proof -
  let ?p = "DefaultClient 0 (Some ''proj'') True False"
  let ?r = "onReady_fulfilled ?p"
  let ?clients = "\<lparr>ActiveClient = 0, ownerOf = (\<lambda>d. 0)\<rparr>"
  have rp: "reachable ?p" by (rule constructed)
  have gp: "gate ?p = Pending" and tp: "trace ?p = []" and qp: "reactions ?p = []"
    and dp: "trackedDocuments ?p = []"
    by (simp_all add: DefaultClient_def gate_def reactions_def)
  have gr: "gate ?r = Ready" and tr: "trace ?r = [Send QueryDefaultPathsRequest]"
    and own: "checkOwnership ?clients ?r 7"
    by (simp_all add: DefaultClient_def gate_def onReady_fulfilled_def settle_def
          registerFileWatcher_def checkOwnership_def Let_def emit_def)
  from takeOwnership_tracks_at_once [of 7 ?p ?clients] rp gp tp qp dp
  have 1: "trackedDocuments (takeOwnership 7 ?p) = [7]"
    "trace (takeOwnership 7 ?p) = [TrackAdd 7]"
    "reactions (takeOwnership 7 ?p) = [SendK (DidOpenNotification 7)]"
    by (simp_all add: Set_add_def)
  from takeOwnership_tracks_at_once [of 7 ?r ?clients] gr tr own
  have 2: "trace (takeOwnership 7 ?r)
           = [Send QueryDefaultPathsRequest, Send (DidOpenNotification 7), TrackAdd 7]"
    "trace (fst (createProtocolFilter ?clients ?r (didOpen 7)))
           = [Send QueryDefaultPathsRequest, TrackAdd 7, Send (Middleware (didOpen 7))]"
    by simp_all
  show ?thesis
    unfolding Let_def using rp gp gr own 1 2 by blast
qed

end
